theory Spec2Isabelle
  imports Main "HOL-Library.Word"
begin

unbundle bit_operations_syntax

section \<open>librm management: data model\<close>

text \<open>
  The embedding follows \<^verbatim>\<open>src/arch/i386/transitions/librm_mgmt.c\<close>, built without
  \<^verbatim>\<open>KEEP_IT_REAL\<close>. A C pointer is a 32-bit linear (virtual) address, \<^verbatim>\<open>size_t\<close>
  is a 32-bit word, \<^verbatim>\<open>uint16_t\<close> a 16-bit word.
\<close>

type_synonym addr = "32 word"
type_synonym byte = "8 word"

text \<open>
  \<^verbatim>\<open>segoff_t\<close>, the type of \<^verbatim>\<open>inst_rm_stack\<close>: the function \<^verbatim>\<open>copy_to_rm_stack\<close>
  returns its \<^verbatim>\<open>offset\<close> as a \<^verbatim>\<open>uint16_t\<close>.
\<close>

record segoff =
  offset :: "16 word"
  segment :: "16 word"

text \<open>
  One copy of librm, the array \<^verbatim>\<open>char librm[]\<close> of \<^verbatim>\<open>librm_size\<close> bytes. The variables
  that the source reaches through the \<^verbatim>\<open>inst_\<close> names (\<^verbatim>\<open>inst_rm_stack\<close>,
  \<^verbatim>\<open>inst_librm_ref_count\<close>) live inside the installed copy, which is why
  \<^verbatim>\<open>uninstall_librm\<close> has to copy the installed copy back to the master copy
  ("preserving the values for rm_ss and rm_sp from the old installed copy").
  \<^item> \<open>rm_stack\<close> is the variable behind \<^verbatim>\<open>inst_rm_stack\<close>.
  \<^item> \<open>librm_ref_count\<close> is the variable behind \<^verbatim>\<open>inst_librm_ref_count\<close>. Its C type
    is declared in \<^verbatim>\<open>librm.h\<close>, which is not under \<^verbatim>\<open>src/\<close>; it is a mathematical
    integer here, incremented and decremented as the source does, and the model says
    nothing about a width.
  \<^item> \<open>librm_text\<close> holds the bytes of the copy by their offset in the copy (the code and
    data this file never looks at; the entries at the offsets of \<open>rm_stack\<close> are not
    used, \<open>rm_stack\<close> stands for them).
\<close>

record librm_copy =
  rm_stack :: segoff
  librm_ref_count :: int
  librm_text :: "32 word \<Rightarrow> byte"

text \<open>
  The calls made to the base memory allocator, oldest first: the allocator is not part
  of this file, and its history is all this file can observe of it.
\<close>

datatype basemem_call =
    Alloc_base_memory "32 word" addr
  | Free_base_memory addr "32 word"

text \<open>
  The state this file reads and writes.
  \<^item> \<open>store\<close>: the librm-sized objects in memory, by the linear address of their first
    byte; \<open>store s (librm e)\<close> is the master copy. Objects at different addresses do
    not overlap, and \<^verbatim>\<open>memcpy ( dest, src, librm_size )\<close> copies one object (when
    \<open>dest = src\<close>, as at startup where \<^verbatim>\<open>installed_librm = librm\<close>, it changes nothing).
  \<^item> \<open>real_mem\<close>: physical memory, by physical address, as far as it is not the
    installed copy. \<^verbatim>\<open>copy_to_real\<close> and \<^verbatim>\<open>copy_from_real\<close> transfer bytes of
    physical memory, and the installed copy is part of it: a physical address inside
    the installed copy denotes a byte of that copy, \<open>rm_stack\<close> included (see
    \<open>phys_byte\<close> and \<open>copy_to_real\<close> below).
  \<^item> \<open>installed_librm\<close>, \<open>allocated_librm\<close>, \<open>librm_base\<close>: the three globals.
  \<^item> \<open>basemem\<close>: the allocator calls made so far.
\<close>

record state =
  store :: "addr \<Rightarrow> librm_copy"
  real_mem :: "addr \<Rightarrow> byte"
  installed_librm :: addr
  allocated_librm :: int
  librm_base :: "32 word"
  basemem :: "basemem_call list"

text \<open>
  What the file takes from the headers and the build, none of which is under
  \<^verbatim>\<open>src/\<close>:
  \<^item> \<open>DEBUG_LIBRM\<close>: whether the build defines \<^verbatim>\<open>DEBUG_LIBRM\<close>;
  \<^item> \<open>librm\<close>, \<open>librm_size\<close>: address and size of the master copy;
  \<^item> \<open>rm_stack_at\<close>: the offset of the variable \<^verbatim>\<open>rm_stack\<close> inside librm, which the
    \<^verbatim>\<open>inst_rm_stack\<close> name adds to \<^verbatim>\<open>installed_librm\<close>;
  \<^item> \<open>virt_to_phys\<close>, \<open>phys_to_virt\<close>: the address translation in force (a relocation
    replaces it by another);
  \<^item> \<open>alloc_base\<close>: the address the allocator returns, given its history and the size;
  \<^item> \<open>initialise\<close>: the effect of \<^verbatim>\<open>initialise ()\<close> on the state of this file.
\<close>

record env =
  DEBUG_LIBRM :: bool
  librm :: addr
  librm_size :: "32 word"
  virt_to_phys :: "addr \<Rightarrow> 32 word"
  phys_to_virt :: "32 word \<Rightarrow> addr"
  alloc_base :: "basemem_call list \<Rightarrow> 32 word \<Rightarrow> addr"
  initialise :: "state \<Rightarrow> state"
  rm_stack_at :: "32 word"

text \<open>The two fatal paths: a diagnostic message followed by \<^verbatim>\<open>lockup()\<close>.\<close>

datatype fatal = RM_stack_exhausted | Ref_count_underflow

text \<open>
  The register block handed to \<^verbatim>\<open>initialise_via_librm\<close>; of \<^verbatim>\<open>struct i386_all_regs\<close>
  the file touches only \<^verbatim>\<open>segs.es\<close>, a 16-bit segment register.
\<close>

record i386_seg_regs =
  es :: "16 word"

record i386_all_regs =
  segs :: i386_seg_regs

section \<open>External collaborators\<close>

text \<open>
  Modelled from the spec: the Address Translator's real-mode addressing, absent from
  \<^verbatim>\<open>src/\<close>. A real-mode address is "a segment base plus an offset within it", the
  segment value being the physical base divided by 16.
\<close>

definition real_linear :: "16 word \<Rightarrow> 16 word \<Rightarrow> addr" where
  "real_linear seg off = push_bit 4 (ucast seg) + ucast off"

text \<open>
  The two bytes of a \<^verbatim>\<open>uint16_t\<close> in memory, low byte first (the code is i386 code),
  and the \<^verbatim>\<open>uint16_t\<close> that two bytes in memory make.
\<close>

definition lo_byte :: "16 word \<Rightarrow> byte" where
  "lo_byte w = ucast w"

definition hi_byte :: "16 word \<Rightarrow> byte" where
  "hi_byte w = ucast (drop_bit 8 w)"

definition word_of_bytes :: "byte \<Rightarrow> byte \<Rightarrow> 16 word" where
  "word_of_bytes lo hi = push_bit 8 (ucast hi) OR ucast lo"

text \<open>
  The physical address of \<^verbatim>\<open>inst_rm_stack\<close>: the installed copy starts at the physical
  address of \<^verbatim>\<open>installed_librm\<close>, and \<^verbatim>\<open>rm_stack\<close> lies \<open>rm_stack_at\<close> bytes into it,
  \<^verbatim>\<open>offset\<close> in its first two bytes and \<^verbatim>\<open>segment\<close> in the next two.
\<close>

definition inst_rm_stack_phys :: "env \<Rightarrow> state \<Rightarrow> addr" where
  "inst_rm_stack_phys e s = virt_to_phys e (installed_librm s) + rm_stack_at e"

text \<open>
  The byte at a physical address: a byte of \<^verbatim>\<open>inst_rm_stack\<close>, or another byte of the
  installed copy, or a byte of the rest of memory.
\<close>

definition phys_byte :: "env \<Rightarrow> state \<Rightarrow> addr \<Rightarrow> byte" where
  "phys_byte e s p =
     (let c = store s (installed_librm s);
          k = p - inst_rm_stack_phys e s;
          i = p - virt_to_phys e (installed_librm s)
      in if k = 0 then lo_byte (offset (rm_stack c))
         else if k = 1 then hi_byte (offset (rm_stack c))
         else if k = 2 then lo_byte (segment (rm_stack c))
         else if k = 3 then hi_byte (segment (rm_stack c))
         else if i < librm_size e then librm_text c i
         else real_mem s p)"

text \<open>
  The byte that a transfer of \<open>n\<close> bytes from the buffer \<open>src\<close> to the physical address
  \<open>dest\<close> leaves at the physical address \<open>p\<close>, if \<open>p\<close> is one of the \<open>n\<close> addresses from
  \<open>dest\<close> on. The buffer is the list of the bytes the caller owns.
\<close>

definition stored_byte :: "addr \<Rightarrow> byte list \<Rightarrow> 32 word \<Rightarrow> addr \<Rightarrow> byte option" where
  "stored_byte dest src n p =
     (let i = p - dest
      in if i < n \<and> unat i < length src then Some (src ! unat i) else None)"

definition patched :: "byte option \<Rightarrow> byte \<Rightarrow> byte" where
  "patched w old = (case w of None \<Rightarrow> old | Some b \<Rightarrow> b)"

text \<open>
  Modelled from the spec: \<^verbatim>\<open>copy_to_real ( segment, offset, src, size )\<close>, absent from
  \<^verbatim>\<open>src/\<close>: "raw byte transfer to a real-mode-addressed (segment, offset) location".
  The state after the transfer: every physical byte in the destination range holds the
  byte of the buffer. Where the range covers bytes of the installed copy, these are
  bytes of \<^verbatim>\<open>inst_rm_stack\<close> or of the rest of that copy, and they change like any
  other byte. (Where the lock count lies in the copy the source does not show: the model
  leaves \<open>librm_ref_count\<close> as it is.)
\<close>

definition copy_to_real :: "env \<Rightarrow> 16 word \<Rightarrow> 16 word \<Rightarrow> byte list \<Rightarrow> 32 word \<Rightarrow> state \<Rightarrow> state" where
  "copy_to_real e seg off src n s =
     (let w = stored_byte (real_linear seg off) src n;
          f = inst_rm_stack_phys e s;
          b = virt_to_phys e (installed_librm s);
          c = store s (installed_librm s);
          r = rm_stack c
      in s\<lparr>store := (store s)(installed_librm s :=
              c\<lparr>rm_stack :=
                  \<lparr>offset = word_of_bytes (patched (w f) (lo_byte (offset r)))
                              (patched (w (f + 1)) (hi_byte (offset r))),
                   segment = word_of_bytes (patched (w (f + 2)) (lo_byte (segment r)))
                              (patched (w (f + 3)) (hi_byte (segment r)))\<rparr>,
                librm_text :=
                  (\<lambda>i. if i < librm_size e then patched (w (b + i)) (librm_text c i)
                       else librm_text c i)\<rparr>),
           real_mem := (\<lambda>p. patched (w p) (real_mem s p))\<rparr>)"

text \<open>
  Modelled from the spec: \<^verbatim>\<open>copy_from_real ( dest, segment, offset, size )\<close>, absent
  from \<^verbatim>\<open>src/\<close>: the \<open>n\<close> bytes of physical memory found at the (segment, offset)
  location, which the caller receives in its buffer.
\<close>

definition copy_from_real :: "env \<Rightarrow> 16 word \<Rightarrow> 16 word \<Rightarrow> 32 word \<Rightarrow> state \<Rightarrow> byte list" where
  "copy_from_real e seg off n s =
     map (\<lambda>i. phys_byte e s (real_linear seg off + of_nat i)) [0..<unat n]"

text \<open>
  Modelled from the spec: the Low-Memory Allocator's \<^verbatim>\<open>alloc_base_memory ( size )\<close>,
  absent from \<^verbatim>\<open>src/\<close>: "allocate(size) -> linear_address". The call is recorded and
  the memory contents are left as they are.
\<close>

definition alloc_base_memory :: "env \<Rightarrow> 32 word \<Rightarrow> state \<Rightarrow> addr \<times> state" where
  "alloc_base_memory e n s =
     (let a = alloc_base e (basemem s) n
      in (a, s\<lparr>basemem := basemem s @ [Alloc_base_memory n a]\<rparr>))"

text \<open>
  Modelled from the spec: the Low-Memory Allocator's \<^verbatim>\<open>free_base_memory ( ptr, size )\<close>,
  absent from \<^verbatim>\<open>src/\<close>: "free(linear_address, size)". The call is recorded; the freed
  memory is not zeroed ("Free but do not zero the base memory").
\<close>

definition free_base_memory :: "addr \<Rightarrow> 32 word \<Rightarrow> state \<Rightarrow> state" where
  "free_base_memory a n s = s\<lparr>basemem := basemem s @ [Free_base_memory a n]\<rparr>"

text \<open>The allocations and the frees in an allocator history.\<close>

fun allocs :: "basemem_call list \<Rightarrow> (addr \<times> 32 word) list" where
  "allocs [] = []"
| "allocs (Alloc_base_memory n a # cs) = (a, n) # allocs cs"
| "allocs (Free_base_memory a n # cs) = allocs cs"

fun frees :: "basemem_call list \<Rightarrow> (addr \<times> 32 word) list" where
  "frees [] = []"
| "frees (Alloc_base_memory n a # cs) = frees cs"
| "frees (Free_base_memory a n # cs) = (a, n) # frees cs"

section \<open>Variables of the installed copy\<close>

text \<open>\<^verbatim>\<open>inst_rm_stack\<close> and \<^verbatim>\<open>inst_librm_ref_count\<close>, read and written in place.\<close>

definition inst_rm_stack :: "state \<Rightarrow> segoff" where
  "inst_rm_stack s = rm_stack (store s (installed_librm s))"

definition inst_rm_stack_update :: "(segoff \<Rightarrow> segoff) \<Rightarrow> state \<Rightarrow> state" where
  "inst_rm_stack_update f s =
     s\<lparr>store := (store s)(installed_librm s :=
          (store s (installed_librm s))\<lparr>rm_stack := f (inst_rm_stack s)\<rparr>)\<rparr>"

definition inst_librm_ref_count :: "state \<Rightarrow> int" where
  "inst_librm_ref_count s = librm_ref_count (store s (installed_librm s))"

definition inst_librm_ref_count_update :: "(int \<Rightarrow> int) \<Rightarrow> state \<Rightarrow> state" where
  "inst_librm_ref_count_update f s =
     s\<lparr>store := (store s)(installed_librm s :=
          (store s (installed_librm s))\<lparr>librm_ref_count := f (inst_librm_ref_count s)\<rparr>)\<rparr>"

section \<open>The real-mode stack\<close>

text \<open>
  \<^verbatim>\<open>copy_to_rm_stack ( data, size )\<close>. The test is compiled only under
  \<^verbatim>\<open>DEBUG_LIBRM\<close>; it compares the offset, converted to \<^verbatim>\<open>size_t\<close>, with \<open>size\<close>.
  \<^verbatim>\<open>inst_rm_stack.offset -= size\<close> stores the difference back into 16 bits. The
  value returned is \<^verbatim>\<open>inst_rm_stack.offset\<close> as read after the copy.
\<close>

definition copy_to_rm_stack :: "env \<Rightarrow> byte list \<Rightarrow> 32 word \<Rightarrow> state \<Rightarrow> fatal + (16 word \<times> state)" where
  "copy_to_rm_stack e data sz s =
     (if DEBUG_LIBRM e \<and> ucast (offset (inst_rm_stack s)) \<le> sz then Inl RM_stack_exhausted
      else
        let s1 = inst_rm_stack_update (\<lambda>r. r\<lparr>offset := ucast (ucast (offset r) - sz)\<rparr>) s;
            s2 = copy_to_real e (segment (inst_rm_stack s1)) (offset (inst_rm_stack s1)) data sz s1
        in Inr (offset (inst_rm_stack s2), s2))"

text \<open>
  \<^verbatim>\<open>remove_from_rm_stack ( data, size )\<close>: \<open>data\<close> is the caller's buffer, \<open>0\<close> for
  \<^verbatim>\<open>NULL\<close>; the bytes copied into the buffer are returned.
\<close>

definition remove_from_rm_stack :: "env \<Rightarrow> addr \<Rightarrow> 32 word \<Rightarrow> state \<Rightarrow> byte list option \<times> state" where
  "remove_from_rm_stack e data sz s =
     (let out = (if data \<noteq> 0
                 then Some (copy_from_real e (segment (inst_rm_stack s))
                        (offset (inst_rm_stack s)) sz s)
                 else None);
          s1 = inst_rm_stack_update (\<lambda>r. r\<lparr>offset := ucast (ucast (offset r) + sz)\<rparr>) s
      in (out, s1))"

section \<open>Placement of librm\<close>

text \<open>\<^verbatim>\<open>install_librm ( addr )\<close>.\<close>

definition install_librm :: "env \<Rightarrow> addr \<Rightarrow> state \<Rightarrow> state" where
  "install_librm e a s =
     (let s1 = s\<lparr>librm_base := virt_to_phys e a\<rparr>;
          s2 = s1\<lparr>store := (store s1)(a := store s1 (librm e))\<rparr>
      in s2\<lparr>installed_librm := a\<rparr>)"

text \<open>\<^verbatim>\<open>uninstall_librm ()\<close>.\<close>

definition uninstall_librm :: "env \<Rightarrow> state \<Rightarrow> state" where
  "uninstall_librm e s =
     (let s1 = s\<lparr>store := (store s)(librm e := store s (installed_librm s))\<rparr>
      in if allocated_librm s1 \<noteq> 0
         then (free_base_memory (installed_librm s1) (librm_size e) s1)\<lparr>allocated_librm := 0\<rparr>
         else s1)"

text \<open>\<^verbatim>\<open>librm_init ()\<close>.\<close>

definition librm_init :: "env \<Rightarrow> state \<Rightarrow> state" where
  "librm_init e s =
     (if librm_base s = 0
      then
        let s1 = install_librm e (phys_to_virt e 0x7c00) s;
            s2 = inst_rm_stack_update (\<lambda>r. r\<lparr>segment := 0x7c0\<rparr>) s1
        in inst_rm_stack_update (\<lambda>r. r\<lparr>offset := 0x1000\<rparr>) s2
      else s)"

text \<open>\<^verbatim>\<open>librm_post_reloc ()\<close>.\<close>

definition librm_post_reloc :: "env \<Rightarrow> state \<Rightarrow> state" where
  "librm_post_reloc e s =
     (let s1 = s\<lparr>installed_librm := phys_to_virt e (librm_base s)\<rparr>
      in if allocated_librm s1 = 0
         then
           let (new_librm, s2) = alloc_base_memory e (librm_size e) s1;
               s3 = uninstall_librm e s2;
               s4 = install_librm e new_librm s3
           in s4\<lparr>allocated_librm := 1\<rparr>
         else s1)"

text \<open>
  \<^verbatim>\<open>initialise_via_librm ( ix86 )\<close>: \<^verbatim>\<open>librm_base >> 4\<close> is stored into the 16-bit
  \<^verbatim>\<open>es\<close>.
\<close>

definition initialise_via_librm :: "env \<Rightarrow> i386_all_regs \<Rightarrow> state \<Rightarrow> i386_all_regs \<times> state" where
  "initialise_via_librm e ix86 s =
     (let s1 = initialise e s
      in (ix86\<lparr>segs := (segs ix86)\<lparr>es := ucast (drop_bit 4 (librm_base s1))\<rparr>\<rparr>, s1))"

section \<open>The lock count\<close>

text \<open>\<^verbatim>\<open>lock_librm ()\<close>.\<close>

definition lock_librm :: "state \<Rightarrow> state" where
  "lock_librm s = inst_librm_ref_count_update (\<lambda>c. c + 1) s"

text \<open>\<^verbatim>\<open>unlock_librm ()\<close>; the test is compiled only under \<^verbatim>\<open>DEBUG_LIBRM\<close>.\<close>

definition unlock_librm :: "env \<Rightarrow> state \<Rightarrow> fatal + state" where
  "unlock_librm e s =
     (if DEBUG_LIBRM e \<and> inst_librm_ref_count s = 0 then Inl Ref_count_underflow
      else Inr (inst_librm_ref_count_update (\<lambda>c. c - 1) s))"

section \<open>Sequences of calls\<close>

text \<open>
  A run of pushes, each given as the caller's bytes and the size passed; the run stops at
  the first fatal path, as \<^verbatim>\<open>lockup()\<close> does.
\<close>

fun push_all :: "env \<Rightarrow> (byte list \<times> 32 word) list \<Rightarrow> state \<Rightarrow> fatal + state" where
  "push_all e [] s = Inr s"
| "push_all e ((d, n) # ps) s =
     (case copy_to_rm_stack e d n s of
        Inl f \<Rightarrow> Inl f
      | Inr (tok, s') \<Rightarrow> push_all e ps s')"

text \<open>A run of pops, each given as the buffer pointer and the size passed.\<close>

fun pop_all :: "env \<Rightarrow> (addr \<times> 32 word) list \<Rightarrow> state \<Rightarrow> state" where
  "pop_all e [] s = s"
| "pop_all e ((d, n) # qs) s = pop_all e qs (snd (remove_from_rm_stack e d n s))"

text \<open>
  Every push of the run finds its size below the offset current at that push: the
  condition under which the test of \<^verbatim>\<open>copy_to_rm_stack\<close> lets a push through.
\<close>

fun pushes_fit :: "16 word \<Rightarrow> 32 word list \<Rightarrow> bool" where
  "pushes_fit off [] = True"
| "pushes_fit off (n # ns) = (n < ucast off \<and> pushes_fit (off - ucast n) ns)"

text \<open>
  The four bytes at the physical address \<open>f\<close> lie outside the \<open>n\<close> bytes from the
  physical address \<open>dest\<close> on (addresses are 32-bit, as the copy computes them).
\<close>

definition range_clear :: "addr \<Rightarrow> addr \<Rightarrow> 32 word \<Rightarrow> bool" where
  "range_clear f dest n = list_all (\<lambda>j. n \<le> f + j - dest) [0, 1, 2, 3]"

text \<open>
  No push of the run, with the stack at \<open>seg\<close>:\<open>off\<close> and sizes as given, writes over the
  four bytes at \<open>f\<close>.
\<close>

fun pushes_clear :: "addr \<Rightarrow> 16 word \<Rightarrow> 16 word \<Rightarrow> 32 word list \<Rightarrow> bool" where
  "pushes_clear f seg off [] = True"
| "pushes_clear f seg off (n # ns) =
     (range_clear f (real_linear seg (off - ucast n)) n \<and> pushes_clear f seg (off - ucast n) ns)"




text \<open>
  The two records of the installed location denote the same place under the address
  translation in force.
\<close>

definition placement_consistent :: "env \<Rightarrow> state \<Rightarrow> bool" where
  "placement_consistent e s \<longleftrightarrow> librm_base s = virt_to_phys e (installed_librm s)"

section \<open>A concrete configuration\<close>

text \<open>
  A build with or without \<^verbatim>\<open>DEBUG_LIBRM\<close>: the master copy at linear address
  \<open>0x20000\<close>, 512 bytes long, with \<^verbatim>\<open>rm_stack\<close> at its start, linear addresses
  \<open>0x100000\<close> below physical ones, an allocator that hands out the region ending at
  physical \<open>0x9f000\<close>.
\<close>

definition example_env :: "bool \<Rightarrow> env" where
  "example_env dbg =
     \<lparr>DEBUG_LIBRM = dbg, librm = 0x20000, librm_size = 0x200,
      virt_to_phys = (\<lambda>v. v + 0x100000), phys_to_virt = (\<lambda>p. p - 0x100000),
      alloc_base = (\<lambda>cs n. 0x9f000 - n - 0x100000), initialise = (\<lambda>s. s),
      rm_stack_at = 0\<rparr>"

text \<open>A copy of librm whose stack has four bytes left and whose lock count is zero.\<close>

definition example_copy :: librm_copy where
  "example_copy =
     \<lparr>rm_stack = \<lparr>offset = 4, segment = 0x7c0\<rparr>, librm_ref_count = 0,
      librm_text = (\<lambda>i. 0x90)\<rparr>"

text \<open>
  The state at startup after entry through librm: \<^verbatim>\<open>installed_librm = librm\<close>, nothing
  allocated, \<^verbatim>\<open>librm_base\<close> filled in.
\<close>

definition example_state :: state where
  "example_state =
     \<lparr>store = (\<lambda>a. example_copy), real_mem = (\<lambda>a. 0), installed_librm = 0x20000,
      allocated_librm = 0, librm_base = 0x7c00, basemem = []\<rparr>"

text \<open>
  The state \<^verbatim>\<open>librm_init\<close> builds when no location is known: the copy installed at
  physical \<open>0x7c00\<close>, the stack at \<open>0x7c0:0x1000\<close>, that is the 4096 bytes from physical
  \<open>0x7c00\<close> on, the installed copy among them.
\<close>

definition fallback_state :: state where
  "fallback_state = librm_init (example_env True) (example_state\<lparr>librm_base := 0\<rparr>)"

section \<open>Auxiliary facts\<close>

lemma allocs_append: "allocs (cs @ ds) = allocs cs @ allocs ds"
  by (induction cs rule: allocs.induct) simp_all

lemma frees_append: "frees (cs @ ds) = frees cs @ frees ds"
  by (induction cs rule: frees.induct) simp_all

lemma inst_rm_stack_update_get [simp]:
  "inst_rm_stack (inst_rm_stack_update f s) = f (inst_rm_stack s)"
  by (simp add: inst_rm_stack_def inst_rm_stack_update_def)

lemma inst_rm_stack_update_fields [simp]:
  "real_mem (inst_rm_stack_update f s) = real_mem s"
  "installed_librm (inst_rm_stack_update f s) = installed_librm s"
  "allocated_librm (inst_rm_stack_update f s) = allocated_librm s"
  "librm_base (inst_rm_stack_update f s) = librm_base s"
  "basemem (inst_rm_stack_update f s) = basemem s"
  "inst_rm_stack_phys e (inst_rm_stack_update f s) = inst_rm_stack_phys e s"
  by (simp_all add: inst_rm_stack_update_def inst_rm_stack_phys_def)

lemma inst_librm_ref_count_update_get [simp]:
  "inst_librm_ref_count (inst_librm_ref_count_update f s) = f (inst_librm_ref_count s)"
  by (simp add: inst_librm_ref_count_def inst_librm_ref_count_update_def)

lemma inst_librm_ref_count_update_fields [simp]:
  "installed_librm (inst_librm_ref_count_update f s) = installed_librm s"
  "librm_base (inst_librm_ref_count_update f s) = librm_base s"
  by (simp_all add: inst_librm_ref_count_update_def)

text \<open>Storing a 32-bit sum or difference into the 16-bit offset.\<close>

lemma take_bit_16_32_diff:
  "take_bit 16 (a - take_bit 32 (y::int)) = take_bit 16 (a - y)"
proof -
  have "take_bit 16 (a - take_bit 32 y) = take_bit 16 (take_bit 16 a - take_bit 16 (take_bit 32 y))"
    by (simp only: take_bit_diff)
  also have "\<dots> = take_bit 16 (take_bit 16 a - take_bit 16 y)"
    by simp
  also have "\<dots> = take_bit 16 (a - y)"
    by (simp only: take_bit_diff)
  finally show ?thesis .
qed

lemma take_bit_16_32_add:
  "take_bit 16 (a + take_bit 32 (y::int)) = take_bit 16 (a + y)"
proof -
  have "take_bit 16 (a + take_bit 32 y) = take_bit 16 (take_bit 16 a + take_bit 16 (take_bit 32 y))"
    by (simp only: take_bit_add)
  also have "\<dots> = take_bit 16 (take_bit 16 a + take_bit 16 y)"
    by simp
  also have "\<dots> = take_bit 16 (a + y)"
    by (simp only: take_bit_add)
  finally show ?thesis .
qed

lemma ucast_sub_down: "(ucast (ucast x - y :: 32 word) :: 16 word) = x - ucast y"
  apply transfer
  apply (simp add: take_bit_16_32_diff)
  apply (metis take_bit_diff take_bit_take_bit min.idem)
  done

lemma ucast_add_down: "(ucast (ucast x + y :: 32 word) :: 16 word) = x + ucast y"
  apply transfer
  apply (simp add: take_bit_16_32_add)
  apply (metis take_bit_add take_bit_take_bit min.idem)
  done

lemma unat_sub_fits:
  assumes "sz < ucast (off :: 16 word)"
  shows "unat (off - ucast (sz :: 32 word)) = unat off - unat sz" "unat sz < unat off"
proof -
  have lt: "unat sz < unat off"
    using assms by (simp add: word_less_nat_alt unsigned_ucast_eq take_bit_eq_mod)
  have "unat off < 2 ^ 16" using unsigned_less [of off] by simp
  with lt have u: "unat (ucast sz :: 16 word) = unat sz"
    by (simp add: unsigned_ucast_eq take_bit_eq_mod)
  have "(ucast sz :: 16 word) \<le> off"
    using lt u by (simp add: word_le_nat_alt)
  then show "unat (off - ucast sz) = unat off - unat sz"
    by (simp add: unat_sub u)
  show "unat sz < unat off" by (rule lt)
qed

text \<open>A 16-bit value and its two bytes.\<close>

lemma word_of_bytes_lo_hi [simp]: "word_of_bytes (lo_byte w) (hi_byte w) = w"
  unfolding word_of_bytes_def lo_byte_def hi_byte_def
  by (rule bit_word_eqI) (auto simp: bit_simps)

lemma lo_byte_word_of_bytes [simp]: "lo_byte (word_of_bytes l h) = l"
  unfolding word_of_bytes_def lo_byte_def hi_byte_def
  by (rule bit_word_eqI) (auto simp: bit_simps)

lemma hi_byte_word_of_bytes [simp]: "hi_byte (word_of_bytes l h) = h"
  unfolding word_of_bytes_def lo_byte_def hi_byte_def
  by (rule bit_word_eqI) (auto simp: bit_simps dest: bit_imp_le_length)

text \<open>What a transfer to physical memory changes, and what it leaves.\<close>

lemma copy_to_real_fields [simp]:
  "installed_librm (copy_to_real e seg off src n s) = installed_librm s"
  "allocated_librm (copy_to_real e seg off src n s) = allocated_librm s"
  "librm_base (copy_to_real e seg off src n s) = librm_base s"
  "basemem (copy_to_real e seg off src n s) = basemem s"
  "inst_rm_stack_phys e' (copy_to_real e seg off src n s) = inst_rm_stack_phys e' s"
  by (simp_all add: copy_to_real_def inst_rm_stack_phys_def Let_def)

lemma stored_byte_clear:
  assumes "range_clear f dest n"
  shows "stored_byte dest src n f = None" "stored_byte dest src n (f + 1) = None"
    "stored_byte dest src n (f + 2) = None" "stored_byte dest src n (f + 3) = None"
  using assms by (simp_all add: range_clear_def stored_byte_def Let_def not_less [symmetric])

lemma copy_to_real_clear:
  assumes "range_clear (inst_rm_stack_phys e s) (real_linear seg off) n"
  shows "inst_rm_stack (copy_to_real e seg off src n s) = inst_rm_stack s"
  by (simp add: copy_to_real_def inst_rm_stack_def Let_def patched_def
      stored_byte_clear [OF assms])

lemma phys_byte_copy_to_real:
  "phys_byte e (copy_to_real e seg off src n s) p
     = patched (stored_byte (real_linear seg off) src n p) (phys_byte e s p)"
proof -
  let ?f = "inst_rm_stack_phys e s"
  have k: "p - ?f = 0 \<Longrightarrow> p = ?f" "p - ?f = 1 \<Longrightarrow> p = ?f + 1"
    "p - ?f = 2 \<Longrightarrow> p = ?f + 2" "p - ?f = 3 \<Longrightarrow> p = ?f + 3"
    by (simp_all add: algebra_simps)
  show ?thesis
    unfolding phys_byte_def copy_to_real_def Let_def
    using k by (auto simp: inst_rm_stack_phys_def)
qed

text \<open>Bytes written to a real-mode location are the bytes read back from it.\<close>

lemma copy_from_to_real:
  assumes "length data = unat n"
  shows "copy_from_real e seg off n (copy_to_real e seg off data n s) = data"
proof (rule nth_equalityI)
  show "length (copy_from_real e seg off n (copy_to_real e seg off data n s)) = length data"
    by (simp add: copy_from_real_def assms)
next
  fix i assume "i < length (copy_from_real e seg off n (copy_to_real e seg off data n s))"
  then have i: "i < unat n" by (simp add: copy_from_real_def)
  have "unat n < 2 ^ 32" using unsigned_less [of n] by simp
  with i have u: "unat (of_nat i :: 32 word) = i"
    by (simp add: unat_of_nat)
  with i have lt: "(of_nat i :: 32 word) < n"
    by (simp add: word_less_nat_alt)
  from i assms u lt
  show "copy_from_real e seg off n (copy_to_real e seg off data n s) ! i = data ! i"
    by (simp add: copy_from_real_def phys_byte_copy_to_real stored_byte_def patched_def)
qed

text \<open>
  A push whose size is below the offset and whose destination does not reach
  \<^verbatim>\<open>inst_rm_stack\<close>, in either build.
\<close>

lemma copy_to_rm_stack_fits:
  assumes lt: "sz < ucast (offset (inst_rm_stack s))"
    and clear: "range_clear (inst_rm_stack_phys e s)
      (real_linear (segment (inst_rm_stack s)) (offset (inst_rm_stack s) - ucast sz)) sz"
  shows "copy_to_rm_stack e data sz s =
           Inr (offset (inst_rm_stack s) - ucast sz,
                copy_to_real e (segment (inst_rm_stack s)) (offset (inst_rm_stack s) - ucast sz)
                  data sz (inst_rm_stack_update (\<lambda>r. r\<lparr>offset := offset r - ucast sz\<rparr>) s))"
    and "inst_rm_stack (copy_to_real e (segment (inst_rm_stack s))
                  (offset (inst_rm_stack s) - ucast sz)
                  data sz (inst_rm_stack_update (\<lambda>r. r\<lparr>offset := offset r - ucast sz\<rparr>) s))
           = (inst_rm_stack s)\<lparr>offset := offset (inst_rm_stack s) - ucast sz\<rparr>"
proof -
  let ?s1 = "inst_rm_stack_update (\<lambda>r. r\<lparr>offset := offset r - ucast sz\<rparr>) s"
  have c1: "range_clear (inst_rm_stack_phys e ?s1)
      (real_linear (segment (inst_rm_stack s)) (offset (inst_rm_stack s) - ucast sz)) sz"
    using clear by simp
  show keep: "inst_rm_stack (copy_to_real e (segment (inst_rm_stack s))
                  (offset (inst_rm_stack s) - ucast sz) data sz ?s1)
           = (inst_rm_stack s)\<lparr>offset := offset (inst_rm_stack s) - ucast sz\<rparr>"
    by (simp add: copy_to_real_clear [OF c1])
  show "copy_to_rm_stack e data sz s =
           Inr (offset (inst_rm_stack s) - ucast sz,
                copy_to_real e (segment (inst_rm_stack s)) (offset (inst_rm_stack s) - ucast sz)
                  data sz ?s1)"
    using lt by (simp add: copy_to_rm_stack_def Let_def ucast_sub_down not_le [symmetric] keep)
qed

lemma remove_from_rm_stack_offset:
  "offset (inst_rm_stack (snd (remove_from_rm_stack e d n s)))
     = offset (inst_rm_stack s) + of_nat (unat n)"
  by (simp add: remove_from_rm_stack_def Let_def ucast_add_down)

lemma pop_all_offset:
  "offset (inst_rm_stack (pop_all e qs s))
     = offset (inst_rm_stack s) + of_nat (sum_list (map (unat \<circ> snd) qs))"
proof (induction qs arbitrary: s)
  case Nil
  then show ?case by simp
next
  case (Cons q qs)
  obtain d n where q: "q = (d, n)" by (cases q)
  show ?case
    by (simp add: q Cons.IH remove_from_rm_stack_offset add.assoc)
qed

lemma sum_unat_rev:
  assumes h: "map snd qs = rev (map snd ps)"
  shows "sum_list (map (unat \<circ> snd) qs) = sum_list (map (unat \<circ> snd) ps)"
proof -
  have "sum_list (map (unat \<circ> snd) qs) = sum_list (map unat (map snd qs))" by simp
  also have "\<dots> = sum_list (map unat (rev (map snd ps)))" by (simp only: h)
  also have "\<dots> = sum_list (map (unat \<circ> snd) ps)" by (simp add: rev_map [symmetric])
  finally show ?thesis .
qed

text \<open>A run of pushes that fit and do not reach \<^verbatim>\<open>inst_rm_stack\<close>.\<close>

lemma push_all_fit:
  "pushes_fit (offset (inst_rm_stack s)) (map snd ps) \<Longrightarrow>
   pushes_clear (inst_rm_stack_phys e s) (segment (inst_rm_stack s))
     (offset (inst_rm_stack s)) (map snd ps) \<Longrightarrow>
   \<exists>s'. push_all e ps s = Inr s'
      \<and> unat (offset (inst_rm_stack s')) + sum_list (map (unat \<circ> snd) ps)
          = unat (offset (inst_rm_stack s))
      \<and> segment (inst_rm_stack s') = segment (inst_rm_stack s)"
proof (induction ps arbitrary: s)
  case Nil
  then show ?case by simp
next
  case (Cons p ps)
  obtain d n where p: "p = (d, n)" by (cases p)
  from Cons.prems p have lt: "n < ucast (offset (inst_rm_stack s))"
    and rest: "pushes_fit (offset (inst_rm_stack s) - ucast n) (map snd ps)"
    and clear: "range_clear (inst_rm_stack_phys e s)
      (real_linear (segment (inst_rm_stack s)) (offset (inst_rm_stack s) - ucast n)) n"
    and clear_rest: "pushes_clear (inst_rm_stack_phys e s) (segment (inst_rm_stack s))
      (offset (inst_rm_stack s) - ucast n) (map snd ps)"
    by simp_all
  let ?s1 = "copy_to_real e (segment (inst_rm_stack s)) (offset (inst_rm_stack s) - ucast n)
                  d n (inst_rm_stack_update (\<lambda>r. r\<lparr>offset := offset r - ucast n\<rparr>) s)"
  have step: "copy_to_rm_stack e d n s = Inr (offset (inst_rm_stack s) - ucast n, ?s1)"
    by (rule copy_to_rm_stack_fits(1) [OF lt clear])
  have st1: "inst_rm_stack ?s1 = (inst_rm_stack s)\<lparr>offset := offset (inst_rm_stack s) - ucast n\<rparr>"
    by (rule copy_to_rm_stack_fits(2) [OF lt clear])
  have ph1: "inst_rm_stack_phys e ?s1 = inst_rm_stack_phys e s"
    by simp
  from rest have fit1: "pushes_fit (offset (inst_rm_stack ?s1)) (map snd ps)"
    by (simp only: st1) simp
  from clear_rest have clear1: "pushes_clear (inst_rm_stack_phys e ?s1) (segment (inst_rm_stack ?s1))
     (offset (inst_rm_stack ?s1)) (map snd ps)"
    by (simp only: st1 ph1) simp
  from Cons.IH [OF fit1 clear1] obtain s' where s': "push_all e ps ?s1 = Inr s'"
    "unat (offset (inst_rm_stack s')) + sum_list (map (unat \<circ> snd) ps)
       = unat (offset (inst_rm_stack ?s1))"
    "segment (inst_rm_stack s') = segment (inst_rm_stack ?s1)"
    by blast
  have "unat (offset (inst_rm_stack ?s1)) = unat (offset (inst_rm_stack s)) - unat n"
    and "unat n < unat (offset (inst_rm_stack s))"
    and "segment (inst_rm_stack ?s1) = segment (inst_rm_stack s)"
    using unat_sub_fits [OF lt] by (simp_all add: st1)
  with s' step p show ?case by (simp add: comp_def)
qed




text \<open>\<^verbatim>\<open>inst_rm_stack\<close> after a transfer, from its bytes before and the bytes stored.\<close>

lemma inst_rm_stack_copy_to_real:
  "inst_rm_stack (copy_to_real e seg off src n s) =
     \<lparr>offset = word_of_bytes
         (patched (stored_byte (real_linear seg off) src n (inst_rm_stack_phys e s))
            (lo_byte (offset (inst_rm_stack s))))
         (patched (stored_byte (real_linear seg off) src n (inst_rm_stack_phys e s + 1))
            (hi_byte (offset (inst_rm_stack s)))),
      segment = word_of_bytes
         (patched (stored_byte (real_linear seg off) src n (inst_rm_stack_phys e s + 2))
            (lo_byte (segment (inst_rm_stack s))))
         (patched (stored_byte (real_linear seg off) src n (inst_rm_stack_phys e s + 3))
            (hi_byte (segment (inst_rm_stack s))))\<rparr>"
  by (simp add: copy_to_real_def inst_rm_stack_def Let_def)

lemma real_mem_copy_to_real:
  "real_mem (copy_to_real e seg off src n s) p
     = patched (stored_byte (real_linear seg off) src n p) (real_mem s p)"
  by (simp add: copy_to_real_def Let_def)

text \<open>The concrete configuration, field by field.\<close>

lemma example_env_fields:
  "DEBUG_LIBRM (example_env dbg) = dbg"
  "librm_size (example_env dbg) = 0x200"
  "rm_stack_at (example_env dbg) = 0"
  "virt_to_phys (example_env dbg) v = v + 0x100000"
  by (simp_all add: example_env_def)

lemma example_state_stack:
  "inst_rm_stack example_state = \<lparr>offset = 4, segment = 0x7c0\<rparr>"
  "inst_rm_stack_phys (example_env dbg) example_state = 0x120000"
  by (simp_all add: example_env_def example_state_def example_copy_def inst_rm_stack_def
      inst_rm_stack_phys_def)

text \<open>The fallback state: stack \<open>0x7c0:0x1000\<close>, \<^verbatim>\<open>inst_rm_stack\<close> at physical \<open>0x7c00\<close>.\<close>

lemma fallback_state_stack:
  "inst_rm_stack fallback_state = \<lparr>offset = 0x1000, segment = 0x7c0\<rparr>"
  "inst_rm_stack_phys (example_env dbg) fallback_state = 0x7c00"
  "real_mem fallback_state p = 0"
  "installed_librm fallback_state = 0xfff07c00"
  by (simp_all add: fallback_state_def librm_init_def install_librm_def example_env_def
      example_state_def inst_rm_stack_phys_def Let_def)

section \<open>Placement: install, uninstall, init, post-relocation\<close>

text \<open>
  C3. For every state, \<^verbatim>\<open>uninstall_librm\<close> copies the installed copy back into the master
  copy, the real-mode stack's segment and offset included. It then calls the allocator's
  free, for the installed region and \<^verbatim>\<open>librm_size\<close>, exactly when
  \<^verbatim>\<open>allocated_librm\<close> was set, and leaves \<^verbatim>\<open>allocated_librm\<close> clear; when it was clear the
  allocator is not called. The installed copy and every other copy but the master are
  left as they were, and so are \<^verbatim>\<open>installed_librm\<close> and \<^verbatim>\<open>librm_base\<close>.
\<close>

theorem uninstall_librm_flushes_and_frees_only_if_allocated:
  "store (uninstall_librm e s) (librm e) = store s (installed_librm s)
   \<and> rm_stack (store (uninstall_librm e s) (librm e)) = inst_rm_stack s
   \<and> basemem (uninstall_librm e s) =
        (if allocated_librm s \<noteq> 0
         then basemem s @ [Free_base_memory (installed_librm s) (librm_size e)]
         else basemem s)
   \<and> allocated_librm (uninstall_librm e s) = 0
   \<and> installed_librm (uninstall_librm e s) = installed_librm s
   \<and> librm_base (uninstall_librm e s) = librm_base s
   \<and> store (uninstall_librm e s) (installed_librm s) = store s (installed_librm s)
   \<and> (\<forall>a. a \<noteq> librm e \<longrightarrow> store (uninstall_librm e s) a = store s a)
   \<and> real_mem (uninstall_librm e s) = real_mem s"
  by (simp add: uninstall_librm_def free_base_memory_def inst_rm_stack_def Let_def)

theorem uninstall_librm_flushes_and_frees_only_if_allocated_witness:
  "store (uninstall_librm (example_env False) (example_state\<lparr>installed_librm := 0x7c00\<rparr>)) 0x20000
      = example_copy
   \<and> basemem (uninstall_librm (example_env False) example_state) = []
   \<and> basemem (uninstall_librm (example_env False)
        (example_state\<lparr>installed_librm := 0x7c00, allocated_librm := 1\<rparr>))
      = [Free_base_memory 0x7c00 0x200]
   \<and> (0x7c00 :: addr) \<noteq> librm (example_env False)
   \<and> store (uninstall_librm (example_env False) (example_state\<lparr>installed_librm := 0x7c00\<rparr>)) 0x7c00
      = example_copy"
  using uninstall_librm_flushes_and_frees_only_if_allocated
          [of "example_env False" "example_state\<lparr>installed_librm := 0x7c00\<rparr>"]
        uninstall_librm_flushes_and_frees_only_if_allocated
          [of "example_env False" example_state]
        uninstall_librm_flushes_and_frees_only_if_allocated
          [of "example_env False" "example_state\<lparr>installed_librm := 0x7c00, allocated_librm := 1\<rparr>"]
  by (simp add: example_env_def example_state_def)

text \<open>
  C1. From every state in which \<^verbatim>\<open>allocated_librm\<close> is clear, \<^verbatim>\<open>librm_post_reloc\<close>
  does these steps in this order: it points \<^verbatim>\<open>installed_librm\<close> at the linear address
  of the last known physical location \<^verbatim>\<open>librm_base\<close>; it asks the allocator for
  \<^verbatim>\<open>librm_size\<close> bytes; it calls \<^verbatim>\<open>uninstall_librm\<close>, which copies the copy at the
  re-derived location back to the master copy and makes no allocator call; it calls
  \<^verbatim>\<open>install_librm\<close> at the new region, which then holds what the old installed copy
  held; and it sets \<^verbatim>\<open>allocated_librm\<close>.
\<close>

theorem librm_post_reloc_migrates:
  assumes "allocated_librm s = 0"
  shows "let s1 = s\<lparr>installed_librm := phys_to_virt e (librm_base s)\<rparr>;
             new_librm = fst (alloc_base_memory e (librm_size e) s1);
             s2 = snd (alloc_base_memory e (librm_size e) s1);
             s3 = uninstall_librm e s2;
             s4 = install_librm e new_librm s3
         in librm_post_reloc e s = s4\<lparr>allocated_librm := 1\<rparr>
            \<and> installed_librm s1 = phys_to_virt e (librm_base s)
            \<and> new_librm = alloc_base e (basemem s) (librm_size e)
            \<and> basemem s2 = basemem s @ [Alloc_base_memory (librm_size e) new_librm]
            \<and> store s3 (librm e) = store s (phys_to_virt e (librm_base s))
            \<and> basemem s3 = basemem s2
            \<and> allocated_librm s3 = 0
            \<and> store s4 new_librm = store s (phys_to_virt e (librm_base s))
            \<and> installed_librm s4 = new_librm
            \<and> librm_base s4 = virt_to_phys e new_librm
            \<and> basemem s4 = basemem s2
            \<and> allocated_librm (librm_post_reloc e s) = 1"
  using assms
  by (simp add: librm_post_reloc_def alloc_base_memory_def uninstall_librm_def install_librm_def
      Let_def split_def)

theorem librm_post_reloc_migrates_witness:
  "allocated_librm example_state = 0
   \<and> installed_librm (librm_post_reloc (example_env False) example_state) = 0xfff9ee00
   \<and> librm_base (librm_post_reloc (example_env False) example_state) = 0x9ee00
   \<and> basemem (librm_post_reloc (example_env False) example_state)
        = [Alloc_base_memory 0x200 0xfff9ee00]
   \<and> allocated_librm (librm_post_reloc (example_env False) example_state) = 1"
  using librm_post_reloc_migrates [of example_state "example_env False"]
  by (simp add: example_env_def example_state_def Let_def alloc_base_memory_def
      uninstall_librm_def install_librm_def)

text \<open>
  C2. Starting with \<^verbatim>\<open>allocated_librm\<close> clear and with an address translation under
  which the newly allocated address maps to a physical address and back to itself,
  two calls of \<^verbatim>\<open>librm_post_reloc\<close> in a row make exactly one allocation and no free:
  the second call leaves the whole state as the first call left it, the region allocated
  is the installed one, and \<^verbatim>\<open>allocated_librm\<close> records it.
\<close>

theorem librm_post_reloc_twice:
  assumes unalloc: "allocated_librm s = 0"
    and inv: "phys_to_virt e (virt_to_phys e (alloc_base e (basemem s) (librm_size e)))
              = alloc_base e (basemem s) (librm_size e)"
  shows "librm_post_reloc e (librm_post_reloc e s) = librm_post_reloc e s
   \<and> allocs (basemem (librm_post_reloc e (librm_post_reloc e s)))
        = allocs (basemem s) @ [(alloc_base e (basemem s) (librm_size e), librm_size e)]
   \<and> frees (basemem (librm_post_reloc e (librm_post_reloc e s))) = frees (basemem s)
   \<and> installed_librm (librm_post_reloc e (librm_post_reloc e s))
        = alloc_base e (basemem s) (librm_size e)
   \<and> allocated_librm (librm_post_reloc e (librm_post_reloc e s)) = 1"
proof -
  let ?a = "alloc_base e (basemem s) (librm_size e)"
  let ?s1 = "librm_post_reloc e s"
  have base1: "librm_base ?s1 = virt_to_phys e ?a"
    and inst1: "installed_librm ?s1 = ?a"
    and alloc1: "allocated_librm ?s1 = 1"
    and log1: "basemem ?s1 = basemem s @ [Alloc_base_memory (librm_size e) ?a]"
    using unalloc
    by (simp_all add: librm_post_reloc_def alloc_base_memory_def uninstall_librm_def
        install_librm_def Let_def split_def)
  have again: "librm_post_reloc e ?s1 = ?s1"
    unfolding librm_post_reloc_def [of e ?s1]
    by (simp add: base1 inst1 alloc1 inv Let_def)
  show ?thesis
    by (simp add: again inst1 alloc1 log1 allocs_append frees_append)
qed

theorem librm_post_reloc_twice_witness:
  "allocated_librm example_state = 0
   \<and> phys_to_virt (example_env True) (virt_to_phys (example_env True)
        (alloc_base (example_env True) (basemem example_state) (librm_size (example_env True))))
       = alloc_base (example_env True) (basemem example_state) (librm_size (example_env True))
   \<and> allocs (basemem (librm_post_reloc (example_env True)
        (librm_post_reloc (example_env True) example_state))) = [(0xfff9ee00, 0x200)]
   \<and> frees (basemem (librm_post_reloc (example_env True)
        (librm_post_reloc (example_env True) example_state))) = []
   \<and> installed_librm (librm_post_reloc (example_env True)
        (librm_post_reloc (example_env True) example_state)) = 0xfff9ee00"
proof -
  have h1: "allocated_librm example_state = 0"
    by (simp add: example_state_def)
  have h2: "phys_to_virt (example_env True) (virt_to_phys (example_env True)
        (alloc_base (example_env True) (basemem example_state) (librm_size (example_env True))))
       = alloc_base (example_env True) (basemem example_state) (librm_size (example_env True))"
    by (simp add: example_env_def)
  show ?thesis
    using h1 h2 librm_post_reloc_twice [OF h1 h2]
    by (simp add: example_env_def example_state_def librm_post_reloc_def alloc_base_memory_def
        uninstall_librm_def install_librm_def Let_def)
qed

text \<open>
  C4. \<^verbatim>\<open>librm_init\<close> is idempotent. When \<^verbatim>\<open>librm_base\<close> is zero it installs the master
  copy at the linear address of physical \<open>0x7c00\<close> and sets the real-mode stack of that
  copy to segment \<open>0x7c0\<close>, offset \<open>0x1000\<close>; when \<^verbatim>\<open>librm_base\<close> is not zero it changes
  nothing. A second call leaves the state, and so \<^verbatim>\<open>installed_librm\<close> and the real-mode
  stack, as the first call left them.
\<close>

theorem librm_init_idempotent:
  "(librm_base s = 0 \<longrightarrow>
      installed_librm (librm_init e s) = phys_to_virt e 0x7c00
      \<and> librm_base (librm_init e s) = virt_to_phys e (phys_to_virt e 0x7c00)
      \<and> store (librm_init e s) (phys_to_virt e 0x7c00) =
          (store s (librm e))\<lparr>rm_stack := \<lparr>offset = 0x1000, segment = 0x7c0\<rparr>\<rparr>
      \<and> inst_rm_stack (librm_init e s) = \<lparr>offset = 0x1000, segment = 0x7c0\<rparr>)
   \<and> (librm_base s \<noteq> 0 \<longrightarrow> librm_init e s = s)
   \<and> librm_init e (librm_init e s) = librm_init e s
   \<and> installed_librm (librm_init e (librm_init e s)) = installed_librm (librm_init e s)
   \<and> inst_rm_stack (librm_init e (librm_init e s)) = inst_rm_stack (librm_init e s)"
  by (simp add: librm_init_def install_librm_def inst_rm_stack_update_def inst_rm_stack_def
      Let_def fun_eq_iff)

theorem librm_init_idempotent_witness:
  "librm_base (example_state\<lparr>librm_base := 0\<rparr>) = 0
   \<and> installed_librm (librm_init (example_env False) (example_state\<lparr>librm_base := 0\<rparr>))
        = 0xfff07c00
   \<and> librm_base (librm_init (example_env False) (example_state\<lparr>librm_base := 0\<rparr>)) = 0x7c00
   \<and> inst_rm_stack (librm_init (example_env False) (example_state\<lparr>librm_base := 0\<rparr>))
        = \<lparr>offset = 0x1000, segment = 0x7c0\<rparr>
   \<and> librm_base example_state \<noteq> 0
   \<and> librm_init (example_env False) example_state = example_state"
  using librm_init_idempotent [of "example_state\<lparr>librm_base := 0\<rparr>" "example_env False"]
        librm_init_idempotent [of example_state "example_env False"]
  by (simp add: example_env_def example_state_def)

text \<open>
  C10. After any call of \<^verbatim>\<open>install_librm\<close> the recorded physical base is the physical
  address of the recorded linear location. \<^verbatim>\<open>uninstall_librm\<close> leaves both records as
  they are. \<^verbatim>\<open>librm_post_reloc\<close>, run under the translation in force after a
  relocation, makes the two records agree again, provided that translation maps the
  physical base to a linear address and back to itself. \<^verbatim>\<open>librm_init\<close>, the stack
  operations and the lock count operations keep the agreement.
\<close>

theorem placement_records_agree:
  "placement_consistent e (install_librm e a s)
   \<and> installed_librm (uninstall_librm e s) = installed_librm s
   \<and> librm_base (uninstall_librm e s) = librm_base s
   \<and> (virt_to_phys e (phys_to_virt e (librm_base s)) = librm_base s \<longrightarrow>
        placement_consistent e (librm_post_reloc e s))
   \<and> (allocated_librm s \<noteq> 0 \<longrightarrow>
        installed_librm (librm_post_reloc e s) = phys_to_virt e (librm_base s)
        \<and> librm_base (librm_post_reloc e s) = librm_base s)
   \<and> (placement_consistent e s \<longrightarrow>
        placement_consistent e (uninstall_librm e s)
        \<and> placement_consistent e (librm_init e s)
        \<and> placement_consistent e (snd (remove_from_rm_stack e d n s))
        \<and> placement_consistent e (lock_librm s)
        \<and> (case copy_to_rm_stack e bs n s of
              Inl f \<Rightarrow> True | Inr (tok, s') \<Rightarrow> placement_consistent e s')
        \<and> (case unlock_librm e s of
              Inl f \<Rightarrow> True | Inr s' \<Rightarrow> placement_consistent e s'))"
  by (simp add: placement_consistent_def install_librm_def uninstall_librm_def
      free_base_memory_def librm_post_reloc_def alloc_base_memory_def librm_init_def
      remove_from_rm_stack_def lock_librm_def copy_to_rm_stack_def unlock_librm_def
      Let_def split_def)

theorem placement_records_agree_witness:
  "placement_consistent (example_env False)
     (install_librm (example_env False) 0xfff9ee00 example_state)
   \<and> virt_to_phys (example_env False) (phys_to_virt (example_env False)
        (librm_base example_state)) = librm_base example_state
   \<and> placement_consistent (example_env False) (librm_post_reloc (example_env False) example_state)
   \<and> allocated_librm (example_state\<lparr>allocated_librm := 1\<rparr>) \<noteq> 0
   \<and> installed_librm (librm_post_reloc (example_env False)
        (example_state\<lparr>allocated_librm := 1\<rparr>)) = 0xfff07c00
   \<and> placement_consistent (example_env False)
        (librm_post_reloc (example_env False) (example_state\<lparr>allocated_librm := 1\<rparr>))
   \<and> placement_consistent (example_env False)
        (lock_librm (librm_post_reloc (example_env False) example_state))"
proof -
  let ?e = "example_env False"
  have inv: "virt_to_phys ?e (phys_to_virt ?e (librm_base example_state))
        = librm_base example_state"
    by (simp add: example_env_def)
  have inv1: "virt_to_phys ?e (phys_to_virt ?e (librm_base (example_state\<lparr>allocated_librm := 1\<rparr>)))
        = librm_base (example_state\<lparr>allocated_librm := 1\<rparr>)"
    by (simp add: example_env_def)
  have a1: "allocated_librm (example_state\<lparr>allocated_librm := 1\<rparr>) \<noteq> 0"
    by simp
  note t = placement_records_agree [of ?e _ example_state]
    and t1 = placement_records_agree [of ?e _ "example_state\<lparr>allocated_librm := 1\<rparr>"]
    and t2 = placement_records_agree [of ?e _ "librm_post_reloc ?e example_state"]
  have c1: "placement_consistent ?e (install_librm ?e 0xfff9ee00 example_state)"
    using placement_records_agree [of ?e "0xfff9ee00" example_state] by blast
  have c2: "placement_consistent ?e (librm_post_reloc ?e example_state)"
    using t inv by blast
  have c3: "installed_librm (librm_post_reloc ?e (example_state\<lparr>allocated_librm := 1\<rparr>))
              = phys_to_virt ?e (librm_base (example_state\<lparr>allocated_librm := 1\<rparr>))"
    using t1 a1 by blast
  have c4: "placement_consistent ?e (librm_post_reloc ?e (example_state\<lparr>allocated_librm := 1\<rparr>))"
    using t1 inv1 by blast
  have c5: "placement_consistent ?e (lock_librm (librm_post_reloc ?e example_state))"
    using t2 c2 by blast
  have c3': "phys_to_virt ?e (librm_base (example_state\<lparr>allocated_librm := 1\<rparr>)) = 0xfff07c00"
    by (simp add: example_env_def example_state_def)
  show ?thesis
    using c1 inv c2 a1 c3 c3' c4 c5 by simp
qed

section \<open>The foreign entry point\<close>

text \<open>
  C9. \<^verbatim>\<open>initialise_via_librm\<close> runs \<^verbatim>\<open>initialise ()\<close> and then stores
  \<^verbatim>\<open>librm_base >> 4\<close> into the 16-bit \<^verbatim>\<open>es\<close>: whenever the physical base of the
  installed copy lies in real-mode addressable memory (below \<open>2 ^ 20\<close>), \<^verbatim>\<open>es\<close> is
  exactly the base divided by 16; in general it is that quotient reduced to 16 bits.
\<close>

theorem initialise_via_librm_es:
  "snd (initialise_via_librm e ix86 s) = initialise e s
   \<and> es (segs (fst (initialise_via_librm e ix86 s)))
        = ucast (drop_bit 4 (librm_base (initialise e s)))
   \<and> unat (es (segs (fst (initialise_via_librm e ix86 s))))
        = (unat (librm_base (initialise e s)) div 16) mod 65536
   \<and> (unat (librm_base (initialise e s)) < 2 ^ 20 \<longrightarrow>
        unat (es (segs (fst (initialise_via_librm e ix86 s))))
          = unat (librm_base (initialise e s)) div 16)"
  by (simp add: initialise_via_librm_def Let_def unsigned_ucast_eq unat_drop_bit_eq
      drop_bit_eq_div take_bit_eq_mod unat_div)

theorem initialise_via_librm_es_witness:
  "unat (librm_base (initialise (example_env False) example_state)) < 2 ^ 20
   \<and> es (segs (fst (initialise_via_librm (example_env False)
        \<lparr>segs = \<lparr>es = 0\<rparr>\<rparr> example_state))) = 0x7c0"
proof -
  have h: "unat (librm_base (initialise (example_env False) example_state)) < 2 ^ 20"
    by (simp add: example_env_def example_state_def)
  have b: "unat (librm_base (initialise (example_env False) example_state)) div 16 = 0x7c0"
    by (simp add: example_env_def example_state_def)
  have "unat (librm_base (initialise (example_env False) example_state)) < 2 ^ 20 \<longrightarrow>
        unat (es (segs (fst (initialise_via_librm (example_env False)
          \<lparr>segs = \<lparr>es = 0\<rparr>\<rparr> example_state))))
          = unat (librm_base (initialise (example_env False) example_state)) div 16"
    using initialise_via_librm_es [of "example_env False" "\<lparr>segs = \<lparr>es = 0\<rparr>\<rparr>" example_state]
    by blast
  with h have "unat (es (segs (fst (initialise_via_librm (example_env False)
          \<lparr>segs = \<lparr>es = 0\<rparr>\<rparr> example_state))))
          = unat (librm_base (initialise (example_env False) example_state)) div 16"
    by blast
  then have "unat (es (segs (fst (initialise_via_librm (example_env False)
        \<lparr>segs = \<lparr>es = 0\<rparr>\<rparr> example_state)))) = 0x7c0"
    by (simp only: b)
  then have "es (segs (fst (initialise_via_librm (example_env False)
        \<lparr>segs = \<lparr>es = 0\<rparr>\<rparr> example_state))) = 0x7c0"
    by (simp add: word_unat_eq_iff)
  with h show ?thesis by simp
qed

section \<open>The real-mode stack: claims\<close>

text \<open>
  C5 (amended). In a build with \<^verbatim>\<open>DEBUG_LIBRM\<close>, \<^verbatim>\<open>copy_to_rm_stack\<close> takes the fatal
  path if and only if the size is at least the current offset; in a build without it the
  test is compiled out and no push takes the fatal path. In either build a push whose
  size is below the current offset (size = offset - 1 included) and whose destination,
  the size bytes from the new (segment, offset) location on, does not reach the bytes of
  \<^verbatim>\<open>inst_rm_stack\<close> itself, succeeds, decreases the offset by exactly the size, leaves
  the segment alone, copies the data to the new (segment, offset) location and returns
  the new offset.
\<close>

theorem copy_to_rm_stack_boundary:
  "(DEBUG_LIBRM e \<longrightarrow>
      (copy_to_rm_stack e data sz s = Inl RM_stack_exhausted)
        = (ucast (offset (inst_rm_stack s)) \<le> sz))
   \<and> (\<not> DEBUG_LIBRM e \<longrightarrow> (\<exists>r. copy_to_rm_stack e data sz s = Inr r))
   \<and> (sz < ucast (offset (inst_rm_stack s))
        \<and> range_clear (inst_rm_stack_phys e s)
             (real_linear (segment (inst_rm_stack s)) (offset (inst_rm_stack s) - ucast sz)) sz
        \<longrightarrow>
        (\<exists>s'. copy_to_rm_stack e data sz s = Inr (offset (inst_rm_stack s'), s')
           \<and> unat (offset (inst_rm_stack s')) = unat (offset (inst_rm_stack s)) - unat sz
           \<and> unat sz < unat (offset (inst_rm_stack s))
           \<and> segment (inst_rm_stack s') = segment (inst_rm_stack s)
           \<and> s' = copy_to_real e (segment (inst_rm_stack s')) (offset (inst_rm_stack s'))
                 data sz (inst_rm_stack_update (\<lambda>r. r\<lparr>offset := offset r - ucast sz\<rparr>) s)
           \<and> (length data = unat sz \<longrightarrow>
                copy_from_real e (segment (inst_rm_stack s')) (offset (inst_rm_stack s')) sz s'
                  = data)))"
proof (intro conjI impI)
  assume "DEBUG_LIBRM e"
  then show "(copy_to_rm_stack e data sz s = Inl RM_stack_exhausted)
        = (ucast (offset (inst_rm_stack s)) \<le> sz)"
    by (simp add: copy_to_rm_stack_def Let_def)
next
  assume "\<not> DEBUG_LIBRM e"
  then show "\<exists>r. copy_to_rm_stack e data sz s = Inr r"
    by (simp add: copy_to_rm_stack_def Let_def)
next
  assume h: "sz < ucast (offset (inst_rm_stack s))
        \<and> range_clear (inst_rm_stack_phys e s)
             (real_linear (segment (inst_rm_stack s)) (offset (inst_rm_stack s) - ucast sz)) sz"
  then have lt: "sz < ucast (offset (inst_rm_stack s))"
    and clear: "range_clear (inst_rm_stack_phys e s)
             (real_linear (segment (inst_rm_stack s)) (offset (inst_rm_stack s) - ucast sz)) sz"
    by simp_all
  let ?s1 = "inst_rm_stack_update (\<lambda>r. r\<lparr>offset := offset r - ucast sz\<rparr>) s"
  let ?s' = "copy_to_real e (segment (inst_rm_stack s)) (offset (inst_rm_stack s) - ucast sz)
               data sz ?s1"
  have st: "inst_rm_stack ?s' = (inst_rm_stack s)\<lparr>offset := offset (inst_rm_stack s) - ucast sz\<rparr>"
    by (rule copy_to_rm_stack_fits(2) [OF lt clear])
  then have off': "offset (inst_rm_stack ?s') = offset (inst_rm_stack s) - ucast sz"
    and seg': "segment (inst_rm_stack ?s') = segment (inst_rm_stack s)"
    by simp_all
  have "copy_to_rm_stack e data sz s = Inr (offset (inst_rm_stack ?s'), ?s')"
    using copy_to_rm_stack_fits(1) [OF lt clear] by (simp only: off')
  moreover have "unat (offset (inst_rm_stack ?s')) = unat (offset (inst_rm_stack s)) - unat sz"
    using unat_sub_fits(1) [OF lt] by (simp only: off')
  moreover have "unat sz < unat (offset (inst_rm_stack s))"
    by (rule unat_sub_fits(2) [OF lt])
  moreover note seg'
  moreover have "?s' = copy_to_real e (segment (inst_rm_stack ?s')) (offset (inst_rm_stack ?s'))
                 data sz ?s1"
    by (simp only: off' seg')
  moreover have "length data = unat sz \<longrightarrow>
                copy_from_real e (segment (inst_rm_stack ?s')) (offset (inst_rm_stack ?s')) sz ?s'
                  = data"
    by (simp only: off' seg') (simp add: copy_from_to_real)
  ultimately show "\<exists>s'. copy_to_rm_stack e data sz s = Inr (offset (inst_rm_stack s'), s')
           \<and> unat (offset (inst_rm_stack s')) = unat (offset (inst_rm_stack s)) - unat sz
           \<and> unat sz < unat (offset (inst_rm_stack s))
           \<and> segment (inst_rm_stack s') = segment (inst_rm_stack s)
           \<and> s' = copy_to_real e (segment (inst_rm_stack s')) (offset (inst_rm_stack s'))
                 data sz (inst_rm_stack_update (\<lambda>r. r\<lparr>offset := offset r - ucast sz\<rparr>) s)
           \<and> (length data = unat sz \<longrightarrow>
                copy_from_real e (segment (inst_rm_stack s')) (offset (inst_rm_stack s')) sz s'
                  = data)"
    by blast
qed

text \<open>
  With four bytes left on a stack away from the installed copy: under \<^verbatim>\<open>DEBUG_LIBRM\<close>
  a push of four bytes is fatal, and a push of three bytes (offset - 1) returns the new
  offset 1.
\<close>

theorem copy_to_rm_stack_boundary_witness:
  "DEBUG_LIBRM (example_env True)
   \<and> ucast (offset (inst_rm_stack example_state)) \<le> (4 :: 32 word)
   \<and> copy_to_rm_stack (example_env True) [1, 2, 3, 4] 4 example_state = Inl RM_stack_exhausted
   \<and> (3 :: 32 word) < ucast (offset (inst_rm_stack example_state))
   \<and> range_clear (inst_rm_stack_phys (example_env True) example_state)
        (real_linear (segment (inst_rm_stack example_state))
           (offset (inst_rm_stack example_state) - ucast (3 :: 32 word))) 3
   \<and> (\<exists>s'. copy_to_rm_stack (example_env True) [1, 2, 3] 3 example_state = Inr (1, s'))"
proof -
  have d: "DEBUG_LIBRM (example_env True)"
    by (simp add: example_env_fields)
  have off: "offset (inst_rm_stack example_state) = 4"
    by (simp add: example_state_stack)
  have le: "ucast (offset (inst_rm_stack example_state)) \<le> (4 :: 32 word)"
    by (simp add: off)
  have lt: "(3 :: 32 word) < ucast (offset (inst_rm_stack example_state))"
    by (simp add: off)
  have clear: "range_clear (inst_rm_stack_phys (example_env True) example_state)
        (real_linear (segment (inst_rm_stack example_state))
           (offset (inst_rm_stack example_state) - ucast (3 :: 32 word))) 3"
    by (simp add: range_clear_def real_linear_def example_state_stack)
  have fatal: "copy_to_rm_stack (example_env True) [1, 2, 3, 4] 4 example_state
                 = Inl RM_stack_exhausted"
    using copy_to_rm_stack_boundary [of "example_env True" "[1, 2, 3, 4]" 4 example_state] d le
    by blast
  obtain s' where s': "copy_to_rm_stack (example_env True) [1, 2, 3] 3 example_state
                 = Inr (offset (inst_rm_stack s'), s')"
    and u: "unat (offset (inst_rm_stack s')) = unat (offset (inst_rm_stack example_state)) - unat (3 :: 32 word)"
    using copy_to_rm_stack_boundary [of "example_env True" "[1, 2, 3]" 3 example_state] lt clear
    by blast
  from u have "unat (offset (inst_rm_stack s')) = 1"
    by (simp add: off)
  then have "offset (inst_rm_stack s') = 1"
    by (simp add: word_unat_eq_iff)
  with s' have "\<exists>s'. copy_to_rm_stack (example_env True) [1, 2, 3] 3 example_state = Inr (1, s')"
    by auto
  with d le fatal lt clear show ?thesis by blast
qed

text \<open>
  The claim as stated fails twice. In a build without \<^verbatim>\<open>DEBUG_LIBRM\<close>, with four
  bytes left, a push of four bytes (size = offset) does not take the fatal path; it
  returns the offset 0. And in the state \<^verbatim>\<open>librm_init\<close> builds, where the stack
  \<open>0x7c0:0x1000\<close> lies over the installed copy at physical \<open>0x7c00\<close>, a push of \<open>0xfff\<close>
  bytes \<open>0x41\<close> (size = offset - 1) writes over \<^verbatim>\<open>inst_rm_stack\<close> before the offset is
  read back: it returns \<open>0x4101\<close>, not the offset less the size, which is 1.
\<close>

theorem copy_to_rm_stack_boundary_counterexample:
  "ucast (offset (inst_rm_stack example_state)) \<le> (4 :: 32 word)
   \<and> copy_to_rm_stack (example_env False) [1, 2, 3, 4] 4 example_state
        \<noteq> Inl RM_stack_exhausted
   \<and> map_sum id fst (copy_to_rm_stack (example_env False) [1, 2, 3, 4] 4 example_state)
        = Inr 0
   \<and> (0xfff :: 32 word) < ucast (offset (inst_rm_stack fallback_state))
   \<and> offset (inst_rm_stack fallback_state) - 0xfff = 1
   \<and> map_sum id fst (copy_to_rm_stack (example_env True) (replicate 0xfff 0x41) 0xfff
        fallback_state) = Inr 0x4101"
proof -
  have a: "ucast (offset (inst_rm_stack example_state)) \<le> (4 :: 32 word)
   \<and> copy_to_rm_stack (example_env False) [1, 2, 3, 4] 4 example_state
        \<noteq> Inl RM_stack_exhausted
   \<and> map_sum id fst (copy_to_rm_stack (example_env False) [1, 2, 3, 4] 4 example_state)
        = Inr 0"
    by (simp add: copy_to_rm_stack_def inst_rm_stack_copy_to_real example_state_stack
        example_env_fields real_linear_def stored_byte_def patched_def word_of_bytes_def
        lo_byte_def hi_byte_def Let_def)
  have b: "(0xfff :: 32 word) < ucast (offset (inst_rm_stack fallback_state))
   \<and> offset (inst_rm_stack fallback_state) - 0xfff = 1"
    by (simp add: fallback_state_stack)
  have c: "map_sum id fst (copy_to_rm_stack (example_env True) (replicate 0xfff 0x41) 0xfff
        fallback_state) = Inr 0x4101"
    by (simp add: copy_to_rm_stack_def inst_rm_stack_copy_to_real fallback_state_stack
        example_env_fields real_linear_def stored_byte_def patched_def word_of_bytes_def
        lo_byte_def hi_byte_def Let_def)
  from a b c show ?thesis by blast
qed

text \<open>
  C6 (amended). For every byte sequence of length \<open>L\<close> and every stack state whose
  offset is above \<open>L\<close> and in which the \<open>L\<close> bytes below the stack's (segment, offset)
  location do not reach the bytes of \<^verbatim>\<open>inst_rm_stack\<close> itself,
  \<^verbatim>\<open>copy_to_rm_stack\<close> of the sequence succeeds, and \<^verbatim>\<open>remove_from_rm_stack\<close> of \<open>L\<close>
  bytes with an output buffer, called next, hands back exactly the bytes pushed (and
  puts the offset back).
\<close>

theorem push_then_pop_restores_bytes:
  assumes lt: "L < ucast (offset (inst_rm_stack s))"
    and len: "length data = unat L"
    and buf: "out \<noteq> 0"
    and clear: "range_clear (inst_rm_stack_phys e s)
      (real_linear (segment (inst_rm_stack s)) (offset (inst_rm_stack s) - ucast L)) L"
  shows "\<exists>tok s1. copy_to_rm_stack e data L s = Inr (tok, s1)
           \<and> fst (remove_from_rm_stack e out L s1) = Some data
           \<and> offset (inst_rm_stack (snd (remove_from_rm_stack e out L s1)))
               = offset (inst_rm_stack s)"
proof -
  let ?s1 = "copy_to_real e (segment (inst_rm_stack s)) (offset (inst_rm_stack s) - ucast L)
               data L (inst_rm_stack_update (\<lambda>r. r\<lparr>offset := offset r - ucast L\<rparr>) s)"
  have push: "copy_to_rm_stack e data L s = Inr (offset (inst_rm_stack s) - ucast L, ?s1)"
    by (rule copy_to_rm_stack_fits(1) [OF lt clear])
  have st: "inst_rm_stack ?s1 = (inst_rm_stack s)\<lparr>offset := offset (inst_rm_stack s) - ucast L\<rparr>"
    by (rule copy_to_rm_stack_fits(2) [OF lt clear])
  have pop: "fst (remove_from_rm_stack e out L ?s1) = Some data"
    using buf by (simp add: remove_from_rm_stack_def Let_def st copy_from_to_real [OF len])
  have off: "offset (inst_rm_stack (snd (remove_from_rm_stack e out L ?s1)))
               = offset (inst_rm_stack s)"
    by (simp add: remove_from_rm_stack_offset st)
  from push pop off show ?thesis by blast
qed

theorem push_then_pop_restores_bytes_witness:
  "(3 :: 32 word) < ucast (offset (inst_rm_stack example_state))
   \<and> length [0xaa, 0xbb, 0xcc :: byte] = unat (3 :: 32 word)
   \<and> (0x5000 :: addr) \<noteq> 0
   \<and> range_clear (inst_rm_stack_phys (example_env False) example_state)
        (real_linear (segment (inst_rm_stack example_state))
           (offset (inst_rm_stack example_state) - ucast (3 :: 32 word))) 3
   \<and> (\<exists>tok s1. copy_to_rm_stack (example_env False) [0xaa, 0xbb, 0xcc] 3 example_state
          = Inr (tok, s1)
        \<and> fst (remove_from_rm_stack (example_env False) 0x5000 3 s1) = Some [0xaa, 0xbb, 0xcc])"
proof -
  have lt: "(3 :: 32 word) < ucast (offset (inst_rm_stack example_state))"
    by (simp add: example_state_stack)
  have len: "length [0xaa, 0xbb, 0xcc :: byte] = unat (3 :: 32 word)"
    by simp
  have buf: "(0x5000 :: addr) \<noteq> 0"
    by simp
  have clear: "range_clear (inst_rm_stack_phys (example_env False) example_state)
        (real_linear (segment (inst_rm_stack example_state))
           (offset (inst_rm_stack example_state) - ucast (3 :: 32 word))) 3"
    by (simp add: range_clear_def real_linear_def example_state_stack)
  from push_then_pop_restores_bytes [OF lt len buf clear] lt len buf clear
  show ?thesis by blast
qed

text \<open>
  The claim as stated fails in the state \<^verbatim>\<open>librm_init\<close> builds: the offset \<open>0x1000\<close> is
  above \<open>0xfff\<close>, the push of \<open>0xfff\<close> bytes \<open>0x41\<close> returns, but it has written over
  \<^verbatim>\<open>inst_rm_stack\<close>, which now reads \<open>0x4141:0x4101\<close>; the pop that follows reads from
  there, and its first byte is 0, not \<open>0x41\<close>.
\<close>

theorem push_then_pop_restores_bytes_counterexample:
  "(0xfff :: 32 word) < ucast (offset (inst_rm_stack fallback_state))
   \<and> length (replicate 0xfff (0x41 :: byte)) = unat (0xfff :: 32 word)
   \<and> \<not> isl (copy_to_rm_stack (example_env True) (replicate 0xfff 0x41) 0xfff fallback_state)
   \<and> inst_rm_stack (snd (projr (copy_to_rm_stack (example_env True) (replicate 0xfff 0x41)
          0xfff fallback_state))) = \<lparr>offset = 0x4101, segment = 0x4141\<rparr>
   \<and> fst (remove_from_rm_stack (example_env True) 0x5000 0xfff
          (snd (projr (copy_to_rm_stack (example_env True) (replicate 0xfff 0x41) 0xfff
             fallback_state))))
        \<noteq> Some (replicate 0xfff 0x41)"
proof -
  let ?e = "example_env True"
  let ?s0 = "inst_rm_stack_update (\<lambda>r. r\<lparr>offset := ucast (ucast (offset r) - (0xfff :: 32 word))\<rparr>)
               fallback_state"
  let ?S = "copy_to_real ?e 0x7c0 1 (replicate 0xfff 0x41) 0xfff ?s0"
  have push: "copy_to_rm_stack ?e (replicate 0xfff 0x41) 0xfff fallback_state
                = Inr (offset (inst_rm_stack ?S), ?S)"
    by (simp add: copy_to_rm_stack_def fallback_state_stack Let_def)
  have st: "inst_rm_stack ?S = \<lparr>offset = 0x4101, segment = 0x4141\<rparr>"
    by (simp add: inst_rm_stack_copy_to_real fallback_state_stack real_linear_def
        stored_byte_def patched_def word_of_bytes_def lo_byte_def hi_byte_def Let_def)
  have first: "copy_from_real ?e 0x4141 0x4101 0xfff ?S ! 0 = 0"
    by (simp add: copy_from_real_def phys_byte_def real_mem_copy_to_real real_linear_def
        stored_byte_def patched_def fallback_state_stack example_env_fields Let_def)
  have "copy_from_real ?e 0x4141 0x4101 0xfff ?S \<noteq> replicate 0xfff 0x41"
  proof
    assume "copy_from_real ?e 0x4141 0x4101 0xfff ?S = replicate 0xfff 0x41"
    then have "copy_from_real ?e 0x4141 0x4101 0xfff ?S ! 0 = replicate 0xfff (0x41 :: byte) ! 0"
      by (simp only:)
    with first show False by simp
  qed
  then have pop: "fst (remove_from_rm_stack ?e 0x5000 0xfff ?S) \<noteq> Some (replicate 0xfff 0x41)"
    by (simp add: remove_from_rm_stack_def Let_def st)
  have lt: "(0xfff :: 32 word) < ucast (offset (inst_rm_stack fallback_state))"
    by (simp add: fallback_state_stack)
  have len: "length (replicate 0xfff (0x41 :: byte)) = unat (0xfff :: 32 word)"
    by simp
  from lt len pop st show ?thesis
    by (simp only: push) simp
qed
text \<open>
  C7 (amended). For every run of pushes that all succeed (each size below the offset
  current at that push) with no pop in between, and none of which writes over the bytes
  of \<^verbatim>\<open>inst_rm_stack\<close> itself, the run returns and the offset after it is the original
  offset minus the sum of the sizes; popping the same sizes in reverse order then puts
  the offset back to its original value.
\<close>

theorem pushes_then_reverse_pops:
  assumes fit: "pushes_fit (offset (inst_rm_stack s)) (map snd ps)"
    and clear: "pushes_clear (inst_rm_stack_phys e s) (segment (inst_rm_stack s))
                  (offset (inst_rm_stack s)) (map snd ps)"
    and rev: "map snd qs = rev (map snd ps)"
  shows "\<exists>s'. push_all e ps s = Inr s'
      \<and> unat (offset (inst_rm_stack s')) + sum_list (map (unat \<circ> snd) ps)
          = unat (offset (inst_rm_stack s))
      \<and> offset (inst_rm_stack (pop_all e qs s')) = offset (inst_rm_stack s)"
proof -
  from push_all_fit [OF fit clear] obtain s' where s': "push_all e ps s = Inr s'"
    and sum: "unat (offset (inst_rm_stack s')) + sum_list (map (unat \<circ> snd) ps)
          = unat (offset (inst_rm_stack s))"
    by blast
  have "offset (inst_rm_stack (pop_all e qs s'))
          = offset (inst_rm_stack s') + of_nat (sum_list (map (unat \<circ> snd) ps))"
    by (simp only: pop_all_offset sum_unat_rev [OF rev])
  also have "\<dots> = of_nat (unat (offset (inst_rm_stack s')) + sum_list (map (unat \<circ> snd) ps))"
    by simp
  also have "\<dots> = offset (inst_rm_stack s)"
    by (simp only: sum of_nat_unat) simp
  finally show ?thesis using s' sum by blast
qed

text \<open>
  Pushes of one and two bytes on a stack with four bytes left, away from the installed
  copy, popped as two and one.
\<close>

theorem pushes_then_reverse_pops_witness:
  "pushes_fit (offset (inst_rm_stack example_state))
     (map snd [([0xaa], 1), ([0xbb, 0xcc], 2)])
   \<and> pushes_clear (inst_rm_stack_phys (example_env True) example_state)
        (segment (inst_rm_stack example_state)) (offset (inst_rm_stack example_state))
        (map snd [([0xaa], 1), ([0xbb, 0xcc], 2)])
   \<and> map snd [(0x5000 :: addr, 2 :: 32 word), (0, 1)]
       = rev (map snd [([0xaa :: byte], 1 :: 32 word), ([0xbb, 0xcc], 2)])
   \<and> (\<exists>s'. push_all (example_env True) [([0xaa], 1), ([0xbb, 0xcc], 2)] example_state = Inr s'
        \<and> unat (offset (inst_rm_stack s')) + 3 = 4
        \<and> offset (inst_rm_stack (pop_all (example_env True) [(0x5000, 2), (0, 1)] s')) = 4)"
proof -
  have off: "offset (inst_rm_stack example_state) = 4"
    by (simp add: example_state_stack)
  have fit: "pushes_fit (offset (inst_rm_stack example_state))
     (map snd [([0xaa], 1), ([0xbb, 0xcc], 2)])"
    by (simp add: off)
  have clear: "pushes_clear (inst_rm_stack_phys (example_env True) example_state)
        (segment (inst_rm_stack example_state)) (offset (inst_rm_stack example_state))
        (map snd [([0xaa], 1), ([0xbb, 0xcc], 2)])"
    by (simp add: range_clear_def real_linear_def example_state_stack)
  have rev: "map snd [(0x5000 :: addr, 2 :: 32 word), (0, 1)]
       = rev (map snd [([0xaa :: byte], 1 :: 32 word), ([0xbb, 0xcc], 2)])"
    by simp
  from pushes_then_reverse_pops [OF fit clear rev]
  obtain s' where "push_all (example_env True) [([0xaa], 1), ([0xbb, 0xcc], 2)] example_state = Inr s'"
    and "unat (offset (inst_rm_stack s'))
           + sum_list (map (unat \<circ> snd) [([0xaa :: byte], 1 :: 32 word), ([0xbb, 0xcc], 2)])
         = unat (offset (inst_rm_stack example_state))"
    and "offset (inst_rm_stack (pop_all (example_env True) [(0x5000, 2), (0, 1)] s'))
         = offset (inst_rm_stack example_state)"
    by blast
  then have "\<exists>s'. push_all (example_env True) [([0xaa], 1), ([0xbb, 0xcc], 2)] example_state = Inr s'
        \<and> unat (offset (inst_rm_stack s')) + 3 = 4
        \<and> offset (inst_rm_stack (pop_all (example_env True) [(0x5000, 2), (0, 1)] s')) = 4"
    by (auto simp: off)
  with fit clear rev show ?thesis by blast
qed

text \<open>
  The claim as stated fails in the state \<^verbatim>\<open>librm_init\<close> builds, offset \<open>0x1000\<close>: pushes
  of \<open>0xff0\<close> and of 15 bytes \<open>0x41\<close> both pass the test and return, the second one having
  written over \<^verbatim>\<open>inst_rm_stack\<close>. The offset is then \<open>0x4101\<close>, not \<open>0x1000\<close> less
  \<open>0xfff\<close>, and pops of 15 and of \<open>0xff0\<close> bytes leave it at \<open>0x5100\<close>, not \<open>0x1000\<close>.
\<close>

theorem pushes_then_reverse_pops_counterexample:
  "offset (inst_rm_stack fallback_state) = 0x1000
   \<and> pushes_fit (offset (inst_rm_stack fallback_state)) [0xff0, 15]
   \<and> \<not> isl (push_all (example_env True)
          [(replicate 0xff0 0x41, 0xff0), (replicate 15 0x41, 15)] fallback_state)
   \<and> offset (inst_rm_stack (projr (push_all (example_env True)
          [(replicate 0xff0 0x41, 0xff0), (replicate 15 0x41, 15)] fallback_state))) = 0x4101
   \<and> offset (inst_rm_stack (pop_all (example_env True) [(0, 15), (0, 0xff0)]
        (projr (push_all (example_env True)
          [(replicate 0xff0 0x41, 0xff0), (replicate 15 0x41, 15)] fallback_state)))) = 0x5100"
proof -
  let ?e = "example_env True"
  let ?s1 = "copy_to_real ?e 0x7c0 0x10 (replicate 0xff0 0x41) 0xff0
               (inst_rm_stack_update (\<lambda>r. r\<lparr>offset := ucast (ucast (offset r) - (0xff0 :: 32 word))\<rparr>)
                  fallback_state)"
  let ?s2 = "copy_to_real ?e 0x7c0 1 (replicate 15 0x41) 15
               (inst_rm_stack_update (\<lambda>r. r\<lparr>offset := ucast (ucast (offset r) - (15 :: 32 word))\<rparr>)
                  ?s1)"
  have st1: "inst_rm_stack ?s1 = \<lparr>offset = 0x10, segment = 0x7c0\<rparr>"
    by (simp add: inst_rm_stack_copy_to_real fallback_state_stack real_linear_def
        stored_byte_def patched_def Let_def)
  have push1: "copy_to_rm_stack ?e (replicate 0xff0 0x41) 0xff0 fallback_state
                 = Inr (0x10, ?s1)"
    by (simp add: copy_to_rm_stack_def fallback_state_stack example_env_fields st1 Let_def)
  have st2: "inst_rm_stack ?s2 = \<lparr>offset = 0x4101, segment = 0x4141\<rparr>"
    by (simp add: inst_rm_stack_copy_to_real st1 fallback_state_stack real_linear_def
        stored_byte_def patched_def word_of_bytes_def lo_byte_def hi_byte_def Let_def)
  have push2: "copy_to_rm_stack ?e (replicate 15 0x41) 15 ?s1 = Inr (0x4101, ?s2)"
    by (simp add: copy_to_rm_stack_def example_env_fields st1 st2 Let_def)
  have run: "push_all ?e [(replicate 0xff0 0x41, 0xff0), (replicate 15 0x41, 15)] fallback_state
               = Inr ?s2"
    by (simp add: push1 push2)
  have pops: "offset (inst_rm_stack (pop_all ?e [(0, 15), (0, 0xff0)] ?s2)) = 0x5100"
    by (simp only: pop_all_offset st2) simp
  have fit: "pushes_fit (offset (inst_rm_stack fallback_state)) [0xff0, 15]"
    by (simp add: fallback_state_stack)
  have off0: "offset (inst_rm_stack fallback_state) = 0x1000"
    by (simp add: fallback_state_stack)
  from off0 fit pops st2 show ?thesis
    by (simp only: run) simp
qed

section \<open>The lock count: claims\<close>




end
